theory Spec2Isabelle
  imports Complex_Main "HOL-Library.Sublist"
begin

section \<open>The task manager of filzl-daemons\<close>

text \<open>
  The development embeds \<^verbatim>\<open>filzl_daemons/tasks.py\<close>: the class \<^verbatim>\<open>TaskManager\<close> with
  \<^verbatim>\<open>queue_work\<close>, \<^verbatim>\<open>get_existing_action_execution\<close>, \<^verbatim>\<open>delegate_done_actions\<close> and
  \<^verbatim>\<open>resolve_future_from_result\<close>. Python exceptions are values of the type \<open>error\<close>;
  every function that can raise returns a pair of its outcome (\<open>Inl\<close> the exception) and
  the state it leaves behind, since a raise does not undo what was written before it.
  Log calls have no effect on the state and are left out.
\<close>

subsection \<open>Records of the ledger\<close>

text \<open>
  Modelled from the spec: the table classes \<^verbatim>\<open>DaemonAction\<close> and \<^verbatim>\<open>DaemonActionResult\<close>
  and the enumeration \<^verbatim>\<open>QueableStatus\<close> of \<^verbatim>\<open>filzl_daemons.models\<close>, and the class
  \<^verbatim>\<open>RetryPolicy\<close> of \<^verbatim>\<open>filzl_daemons.retry\<close>, with the fields of the persisted schema.
  A record is queued when it is created, workers move it on, and \<^verbatim>\<open>DONE\<close> is the status
  the loop subscribes to. The primary key is absent on an object that has not been
  written yet. The field \<^verbatim>\<open>id\<close> is named \<open>id_act\<close> and \<open>id_res\<close>.
\<close>

datatype QueableStatus = QUEUED | IN_PROGRESS | DONE

record RetryPolicy =
  backoff_seconds :: int
  backoff_factor :: real
  jitter :: real

record DaemonAction =
  id_act :: "int option"
  workflow_name :: string
  instance_id :: int
  state :: string
  registry_id :: string
  input_body :: "string option"
  status :: QueableStatus
  final_result_id :: "int option"
  retry_backoff_seconds :: int
  retry_backoff_factor :: real
  retry_jitter :: real

record DaemonActionResult =
  id_res :: "int option"
  action_id :: int
  result_body :: "string option"
  exception :: "string option"
  exception_stack :: "string option"

text \<open>
  The action stub handed to \<^verbatim>\<open>queue_work\<close>: the registry id of the action and its
  optional input model, of some type \<open>'b\<close>. The two operations that \<^verbatim>\<open>queue_work\<close>
  applies to an input model are parameters of it: its Python truth value
  (\<open>model_truth\<close>, what \<^verbatim>\<open>if task.input_body\<close> tests) and \<^verbatim>\<open>model_dump_json\<close>.
\<close>

record 'b ActionExecutionStub =
  stub_registry_id :: string
  stub_input_body :: "'b option"

subsection \<open>The backend\<close>

text \<open>
  Modelled from the spec: the Postgres backend. The two tables are lists in storage
  order, a query's \<^verbatim>\<open>first()\<close> is the first row in that order that satisfies the
  filter, and the ledger assigns the primary key of an inserted action from a sequence.
\<close>

record ledger =
  actions :: "DaemonAction list"
  action_results :: "DaemonActionResult list"
  action_id_seq :: int

definition commit_action :: "DaemonAction \<Rightarrow> ledger \<Rightarrow> DaemonAction \<times> ledger" where
  "commit_action a db =
     (let a' = a\<lparr>id_act := Some (action_id_seq db)\<rparr>
      in (a', db\<lparr>actions := actions db @ [a'], action_id_seq := action_id_seq db + 1\<rparr>))"

definition get_action_by_id :: "int \<Rightarrow> ledger \<Rightarrow> DaemonAction option" where
  "get_action_by_id i db = find (\<lambda>a. id_act a = Some i) (actions db)"

definition get_result_by_id :: "int \<Rightarrow> ledger \<Rightarrow> DaemonActionResult option" where
  "get_result_by_id i db = find (\<lambda>r. id_res r = Some i) (action_results db)"

subsection \<open>Futures\<close>

text \<open>
  An \<^verbatim>\<open>asyncio.Future\<close> is an object with identity: two futures are the same handle
  when they are the same object. The heap is the list of all futures created so far and
  a handle is an index into it. \<^verbatim>\<open>set_result\<close> and \<^verbatim>\<open>set_exception\<close> raise
  \<^verbatim>\<open>InvalidStateError\<close> on a future that is already done. An exception stored in a
  future is represented by its message text. Every handle a program holds is an object
  of the heap; for an index outside the heap, which no run produces, the model answers
  as for a future that is done.
\<close>

datatype 'v Future = Pending | Finished_Result "'v option" | Finished_Exception string

datatype error =
    ActionIdNone              \<comment> \<open>\<^verbatim>\<open>ValueError("Action task ID is None")\<close>\<close>
  | DisallowedResponseType    \<comment> \<open>\<^verbatim>\<open>ValueError("Disallowed response type: ...")\<close>\<close>
  | InvalidStateError         \<comment> \<open>raised by asyncio on a future that is done\<close>
  | ValidationError           \<comment> \<open>raised by \<^verbatim>\<open>model_validate_json\<close>\<close>
  | ObjectNotFound            \<comment> \<open>\<^verbatim>\<open>get_object_by_id\<close> on an id that no row has\<close>

record 'v world =
  backend :: ledger
  wait_signals :: "int \<rightharpoonup> nat"
  heap :: "'v Future list"

definition new_future :: "'v world \<Rightarrow> nat \<times> 'v world" where
  "new_future w = (length (heap w), w\<lparr>heap := heap w @ [Pending]\<rparr>)"

definition future_done :: "nat \<Rightarrow> 'v world \<Rightarrow> bool" where
  "future_done f w = (\<not> (f < length (heap w) \<and> heap w ! f = Pending))"

definition set_result :: "nat \<Rightarrow> 'v option \<Rightarrow> 'v world \<Rightarrow> (error + unit) \<times> 'v world" where
  "set_result f v w =
     (if future_done f w then (Inl InvalidStateError, w)
      else (Inr (), w\<lparr>heap := (heap w)[f := Finished_Result v]\<rparr>))"

definition set_exception :: "nat \<Rightarrow> string \<Rightarrow> 'v world \<Rightarrow> (error + unit) \<times> 'v world" where
  "set_exception f msg w =
     (if future_done f w then (Inl InvalidStateError, w)
      else (Inr (), w\<lparr>heap := (heap w)[f := Finished_Exception msg]\<rparr>))"

subsection \<open>Python truth values and string formatting\<close>

definition truthy_str :: "string option \<Rightarrow> bool" where
  "truthy_str s = (case s of None \<Rightarrow> False | Some t \<Rightarrow> t \<noteq> [])"

definition truthy_int :: "int option \<Rightarrow> bool" where
  "truthy_int i = (case i of None \<Rightarrow> False | Some k \<Rightarrow> k \<noteq> 0)"

definition format_str :: "string option \<Rightarrow> string" where
  "format_str s = (case s of None \<Rightarrow> ''None'' | Some t \<Rightarrow> t)"

subsection \<open>TaskManager\<close>

type_synonym 'v codec = "string \<Rightarrow> 'v option"

text \<open>
  \<^verbatim>\<open>REGISTRY.get_action_output\<close> is the parameter \<open>reg\<close>: the output model class of a
  registry id, if it has one. A model class decodes a body with
  \<^verbatim>\<open>model_validate_json\<close>, which returns the model or raises (\<open>None\<close>).
\<close>

definition resolve_future_from_result ::
  "(string \<Rightarrow> 'v codec option) \<Rightarrow> nat \<Rightarrow> string \<Rightarrow> DaemonActionResult \<Rightarrow> 'v world
     \<Rightarrow> (error + unit) \<times> 'v world" where
  "resolve_future_from_result reg future rid result w =
     (let action_model = reg rid in
      if truthy_str (exception result) then
        set_exception future (format_str (exception result)) w
      else
        (case action_model of
           Some model \<Rightarrow>
             if truthy_str (result_body result) then
               (case model (the (result_body result)) of
                  None \<Rightarrow> (Inl ValidationError, w)
                | Some future_result \<Rightarrow> set_result future (Some future_result) w)
             else (Inl DisallowedResponseType, w)
         | None \<Rightarrow> set_result future None w))"

definition get_existing_action_execution ::
  "int \<Rightarrow> string \<Rightarrow> ledger \<Rightarrow> DaemonAction option \<times> DaemonActionResult option" where
  "get_existing_action_execution iid st db =
     (case find (\<lambda>a. state a = st \<and> instance_id a = iid) (actions db) of
        None \<Rightarrow> (None, None)
      | Some existing_action \<Rightarrow>
          (Some existing_action,
           find (\<lambda>r. Some (action_id r) = id_act existing_action) (action_results db)))"

definition queue_work ::
  "(string \<Rightarrow> 'v codec option) \<Rightarrow> ('b \<Rightarrow> bool) \<Rightarrow> ('b \<Rightarrow> string)
     \<Rightarrow> 'b ActionExecutionStub \<Rightarrow> string \<Rightarrow> int \<Rightarrow> string \<Rightarrow> RetryPolicy \<Rightarrow> 'v world
     \<Rightarrow> (error + nat) \<times> 'v world" where
  "queue_work reg model_truth model_dump_json task st iid queue_name retry w =
     (let (found, existing_result) = get_existing_action_execution iid st (backend w);
          (existing_action, db) =
            (case found of
               Some a \<Rightarrow> (a, backend w)
             | None \<Rightarrow>
                 commit_action
                   \<lparr>id_act = None,
                    workflow_name = queue_name,
                    instance_id = iid,
                    state = st,
                    registry_id = stub_registry_id task,
                    input_body =
                      (case stub_input_body task of
                         None \<Rightarrow> None
                       | Some m \<Rightarrow> if model_truth m then Some (model_dump_json m) else None),
                    status = QUEUED,
                    final_result_id = None,
                    retry_backoff_seconds = 1,
                    retry_backoff_factor = 1,
                    retry_jitter = 1\<rparr>
                   (backend w));
          w0 = w\<lparr>backend := db\<rparr>
      in case id_act existing_action of
           None \<Rightarrow> (Inl ActionIdNone, w0)
         | Some aid \<Rightarrow>
             (case existing_result of
                Some result \<Rightarrow>
                  (let (immediate_future, w1) = new_future w0 in
                   case resolve_future_from_result reg immediate_future
                          (stub_registry_id task) result w1 of
                     (Inl e, w2) \<Rightarrow> (Inl e, w2)
                   | (Inr u, w2) \<Rightarrow> (Inr immediate_future, w2))
              | None \<Rightarrow>
                  (let (fut, w1) = new_future w0
                   in (Inr fut, w1\<lparr>wait_signals := (wait_signals w1)(aid \<mapsto> fut)\<rparr>))))"

text \<open>
  One turn of the loop of \<^verbatim>\<open>delegate_done_actions\<close>, for the notification of the action
  id \<open>n\<close>. A \<^verbatim>\<open>continue\<close> is a normal outcome with the state unchanged.
\<close>

definition handle_notification ::
  "(string \<Rightarrow> 'v codec option) \<Rightarrow> int \<Rightarrow> 'v world \<Rightarrow> (error + unit) \<times> 'v world" where
  "handle_notification reg n w =
     (case wait_signals w n of
        None \<Rightarrow> (Inr (), w)
      | Some waiting_futures \<Rightarrow>
          (case get_action_by_id n (backend w) of
             None \<Rightarrow> (Inl ObjectNotFound, w)
           | Some obj \<Rightarrow>
               if \<not> truthy_int (final_result_id obj) then (Inr (), w)
               else
                 (case get_result_by_id (the (final_result_id obj)) (backend w) of
                    None \<Rightarrow> (Inl ObjectNotFound, w)
                  | Some result_obj \<Rightarrow>
                      if truthy_str (exception result_obj) then
                        set_exception waiting_futures
                          (''Action failed with error: '' @ format_str (exception result_obj)
                             @ '' '' @ format_str (exception_stack result_obj)) w
                      else
                        resolve_future_from_result reg waiting_futures (registry_id obj)
                          result_obj w)))"

text \<open>
  The loop runs over the notifications of the backend, an unbounded stream. The model
  runs it over the notifications delivered so far: at the end of the list the loop is
  waiting for the next one (\<open>Inr ()\<close>), and an exception raised in a turn leaves the
  loop, and with it the coroutine.
\<close>

fun delegate_done_actions ::
  "(string \<Rightarrow> 'v codec option) \<Rightarrow> int list \<Rightarrow> 'v world \<Rightarrow> (error + unit) \<times> 'v world" where
  "delegate_done_actions reg [] w = (Inr (), w)"
| "delegate_done_actions reg (n # ns) w =
     (case handle_notification reg n w of
        (Inl e, w') \<Rightarrow> (Inl e, w')
      | (Inr u, w') \<Rightarrow> delegate_done_actions reg ns w')"

subsection \<open>Sequential repetition of queue_work\<close>

text \<open>
  A caller that repeats \<^verbatim>\<open>queue_work\<close> for one pair of instance id and state, one call
  after the other; the task, the queue name and the retry policy may change from call
  to call, and a call that raises is followed by the next one.
\<close>

record 'b queue_call =
  call_task :: "'b ActionExecutionStub"
  call_queue_name :: string
  call_retry :: RetryPolicy

fun repeat_queue_work ::
  "(string \<Rightarrow> 'v codec option) \<Rightarrow> ('b \<Rightarrow> bool) \<Rightarrow> ('b \<Rightarrow> string) \<Rightarrow> string \<Rightarrow> int
     \<Rightarrow> 'b queue_call list \<Rightarrow> 'v world \<Rightarrow> 'v world" where
  "repeat_queue_work reg truth dump st iid [] w = w"
| "repeat_queue_work reg truth dump st iid (c # cs) w =
     repeat_queue_work reg truth dump st iid cs
       (snd (queue_work reg truth dump (call_task c) st iid (call_queue_name c) (call_retry c) w))"

subsection \<open>Example states\<close>

definition ex_reg :: "string \<Rightarrow> int codec option" where
  "ex_reg rid = (if rid = ''typed'' then Some (\<lambda>b. if b = ''42'' then Some 42 else None) else None)"

definition ex_truth :: "int \<Rightarrow> bool" where
  "ex_truth x = (x \<noteq> 0)"

definition ex_dump :: "int \<Rightarrow> string" where
  "ex_dump x = (if x = 7 then ''7'' else ''0'')"

definition ex_task :: "int ActionExecutionStub" where
  "ex_task = \<lparr>stub_registry_id = ''typed'', stub_input_body = Some 7\<rparr>"

definition ex_task_untyped :: "int ActionExecutionStub" where
  "ex_task_untyped = \<lparr>stub_registry_id = ''untyped'', stub_input_body = None\<rparr>"

definition ex_retry :: RetryPolicy where
  "ex_retry = \<lparr>backoff_seconds = 5, backoff_factor = 2, jitter = 3\<rparr>"

definition world0 :: "int world" where
  "world0 = \<lparr>backend = \<lparr>actions = [], action_results = [], action_id_seq = 1\<rparr>,
             wait_signals = Map.empty, heap = []\<rparr>"

definition ex_action :: DaemonAction where
  "ex_action =
     \<lparr>id_act = Some 1, workflow_name = ''main'', instance_id = 1, state = ''step_a'',
      registry_id = ''typed'', input_body = Some ''7'', status = DONE,
      final_result_id = Some 1, retry_backoff_seconds = 1, retry_backoff_factor = 1,
      retry_jitter = 1\<rparr>"

definition ex_action2 :: DaemonAction where
  "ex_action2 =
     \<lparr>id_act = Some 2, workflow_name = ''main'', instance_id = 1, state = ''step_b'',
      registry_id = ''typed'', input_body = None, status = DONE,
      final_result_id = Some 2, retry_backoff_seconds = 1, retry_backoff_factor = 1,
      retry_jitter = 1\<rparr>"

definition ex_result_ok :: DaemonActionResult where
  "ex_result_ok =
     \<lparr>id_res = Some 1, action_id = 1, result_body = Some ''42'', exception = None,
      exception_stack = None\<rparr>"

definition ex_result_boom :: DaemonActionResult where
  "ex_result_boom =
     \<lparr>id_res = Some 1, action_id = 1, result_body = None, exception = Some ''boom'',
      exception_stack = Some ''trace...''\<rparr>"

definition ex_result_nobody :: DaemonActionResult where
  "ex_result_nobody =
     \<lparr>id_res = Some 1, action_id = 1, result_body = None, exception = None,
      exception_stack = None\<rparr>"

definition ex_result2 :: DaemonActionResult where
  "ex_result2 =
     \<lparr>id_res = Some 2, action_id = 2, result_body = Some ''42'', exception = None,
      exception_stack = None\<rparr>"

definition world_stored :: "int world" where
  "world_stored =
     \<lparr>backend = \<lparr>actions = [ex_action], action_results = [ex_result_ok], action_id_seq = 2\<rparr>,
      wait_signals = Map.empty, heap = []\<rparr>"

definition world_boom :: "int world" where
  "world_boom =
     \<lparr>backend = \<lparr>actions = [ex_action], action_results = [ex_result_boom], action_id_seq = 2\<rparr>,
      wait_signals = Map.empty, heap = []\<rparr>"

definition world_waiting :: "int world" where
  "world_waiting =
     \<lparr>backend = \<lparr>actions = [ex_action], action_results = [ex_result_ok], action_id_seq = 2\<rparr>,
      wait_signals = [1 \<mapsto> 0], heap = [Pending]\<rparr>"

definition world_two :: "int world" where
  "world_two =
     \<lparr>backend = \<lparr>actions = [ex_action, ex_action2],
                 action_results = [ex_result_nobody, ex_result2], action_id_seq = 3\<rparr>,
      wait_signals = [1 \<mapsto> 0, 2 \<mapsto> 1], heap = [Pending, Pending]\<rparr>"

section \<open>Properties\<close>

lemmas ex_defs = ex_reg_def ex_truth_def ex_dump_def ex_task_def ex_task_untyped_def ex_retry_def world0_def ex_action_def
  ex_action2_def ex_result_ok_def ex_result_boom_def ex_result_nobody_def ex_result2_def
  world_stored_def world_boom_def world_waiting_def world_two_def

lemmas model_defs = queue_work_def get_existing_action_execution_def commit_action_def
  new_future_def resolve_future_from_result_def set_result_def set_exception_def
  future_done_def truthy_str_def truthy_int_def format_str_def handle_notification_def
  get_action_by_id_def get_result_by_id_def Let_def

subsection \<open>State left by the futures\<close>

lemma set_result_backend [simp]: "backend (snd (set_result f v w)) = backend w"
  by (simp add: set_result_def)

lemma set_exception_backend [simp]: "backend (snd (set_exception f m w)) = backend w"
  by (simp add: set_exception_def)

lemma set_result_wait_signals [simp]: "wait_signals (snd (set_result f v w)) = wait_signals w"
  by (simp add: set_result_def)

lemma set_exception_wait_signals [simp]:
  "wait_signals (snd (set_exception f m w)) = wait_signals w"
  by (simp add: set_exception_def)

lemma set_result_raises: "fst (set_result f v w) = Inl e \<Longrightarrow> snd (set_result f v w) = w"
  by (simp add: set_result_def split: if_splits)

lemma set_exception_raises:
  "fst (set_exception f m w) = Inl e \<Longrightarrow> snd (set_exception f m w) = w"
  by (simp add: set_exception_def split: if_splits)

lemma resolve_backend [simp]:
  "backend (snd (resolve_future_from_result reg f rid r w)) = backend w"
  by (simp add: resolve_future_from_result_def split: option.splits)

lemma resolve_wait_signals [simp]:
  "wait_signals (snd (resolve_future_from_result reg f rid r w)) = wait_signals w"
  by (simp add: resolve_future_from_result_def split: option.splits)

lemma resolve_raises:
  "fst (resolve_future_from_result reg f rid r w) = Inl e
     \<Longrightarrow> snd (resolve_future_from_result reg f rid r w) = w"
  by (auto simp: resolve_future_from_result_def set_result_raises set_exception_raises
      split: option.splits if_splits)

lemma resolve_done:
  "future_done f w \<Longrightarrow> \<exists>e. resolve_future_from_result reg f rid r w = (Inl e, w)"
  by (simp add: resolve_future_from_result_def set_result_def set_exception_def
      split: option.splits)

lemma handle_notification_raises:
  "fst (handle_notification reg n w) = Inl e \<Longrightarrow> snd (handle_notification reg n w) = w"
  by (auto simp: handle_notification_def set_exception_raises resolve_raises
      split: option.splits if_splits)

lemma handle_notification_backend [simp]:
  "backend (snd (handle_notification reg n w)) = backend w"
  by (simp add: handle_notification_def split: option.splits)

lemma handle_notification_wait_signals [simp]:
  "wait_signals (snd (handle_notification reg n w)) = wait_signals w"
  by (simp add: handle_notification_def split: option.splits)

subsection \<open>The three paths of queue_work\<close>

lemma queue_work_pending_path:
  assumes "get_existing_action_execution iid st (backend w) = (Some a, None)"
    and "id_act a = Some k"
  shows "queue_work reg truth dump task st iid q retry w =
     (Inr (length (heap w)),
      w\<lparr>heap := heap w @ [Pending],
        wait_signals := (wait_signals w)(k \<mapsto> length (heap w))\<rparr>)"
  using assms by (simp add: queue_work_def new_future_def)

lemma existing_result_has_id:
  assumes "get_existing_action_execution iid st db = (Some a, Some r)"
  shows "id_act a = Some (action_id r)"
proof -
  from assms have "find (\<lambda>r. Some (action_id r) = id_act a) (action_results db) = Some r"
    by (auto simp: get_existing_action_execution_def split: option.splits)
  then show ?thesis
    by (auto simp: find_Some_iff)
qed

lemma queue_work_fast_path:
  assumes "get_existing_action_execution iid st (backend w) = (Some a, Some r)"
  shows "queue_work reg truth dump task st iid q retry w =
     (case resolve_future_from_result reg (length (heap w)) (stub_registry_id task) r
             (w\<lparr>heap := heap w @ [Pending]\<rparr>) of
        (Inl e, w2) \<Rightarrow> (Inl e, w2)
      | (Inr u, w2) \<Rightarrow> (Inr (length (heap w)), w2))"
  using assms existing_result_has_id [OF assms]
  by (simp add: queue_work_def new_future_def)

lemma queue_work_found_backend:
  assumes "find (\<lambda>a. state a = st \<and> instance_id a = iid) (actions (backend w)) = Some a"
  shows "backend (snd (queue_work reg truth dump task st iid q retry w)) = backend w"
proof -
  have res: "\<And>f rid r w0 out w'. resolve_future_from_result reg f rid r w0 = (out, w')
      \<Longrightarrow> backend w' = backend w0"
    using resolve_backend by (metis snd_conv)
  show ?thesis
    using assms
    by (auto simp: queue_work_def get_existing_action_execution_def new_future_def Let_def
        split: option.splits prod.splits sum.splits dest!: res)
qed

lemma queue_work_absent_backend:
  assumes "find (\<lambda>a. state a = st \<and> instance_id a = iid) (actions (backend w)) = None"
  shows "actions (backend (snd (queue_work reg truth dump task st iid q retry w))) =
     actions (backend w) @
       [\<lparr>id_act = Some (action_id_seq (backend w)),
         workflow_name = q,
         instance_id = iid,
         state = st,
         registry_id = stub_registry_id task,
         input_body =
           (case stub_input_body task of
              None \<Rightarrow> None
            | Some m \<Rightarrow> if truth m then Some (dump m) else None),
         status = QUEUED,
         final_result_id = None,
         retry_backoff_seconds = 1,
         retry_backoff_factor = 1,
         retry_jitter = 1\<rparr>]"
  using assms
  by (simp add: queue_work_def get_existing_action_execution_def new_future_def
      commit_action_def Let_def)

lemma find_snoc_holds: "P x \<Longrightarrow> find P (xs @ [x]) \<noteq> None"
  by (auto simp: find_None_iff)

lemma queue_work_then_found:
  "find (\<lambda>a. state a = st \<and> instance_id a = iid)
     (actions (backend (snd (queue_work reg truth dump task st iid q retry w)))) \<noteq> None"
proof (cases "find (\<lambda>a. state a = st \<and> instance_id a = iid) (actions (backend w))")
  case None
  show ?thesis
    by (simp add: queue_work_absent_backend [OF None] find_snoc_holds)
next
  case (Some a)
  show ?thesis
    by (simp add: queue_work_found_backend [OF Some] Some)
qed

lemma repeat_found_backend:
  "find (\<lambda>a. state a = st \<and> instance_id a = iid) (actions (backend w)) \<noteq> None
     \<Longrightarrow> backend (repeat_queue_work reg truth dump st iid cs w) = backend w"
proof (induction cs arbitrary: w)
  case Nil
  show ?case by simp
next
  case (Cons c cs)
  from Cons.prems obtain a
    where a: "find (\<lambda>a. state a = st \<and> instance_id a = iid) (actions (backend w)) = Some a"
    by auto
  let ?w' = "snd (queue_work reg truth dump (call_task c) st iid (call_queue_name c) (call_retry c) w)"
  have same: "backend ?w' = backend w"
    by (rule queue_work_found_backend [OF a])
  with Cons.prems have "backend (repeat_queue_work reg truth dump st iid cs ?w') = backend ?w'"
    by (intro Cons.IH) simp
  with same show ?case by simp
qed

lemma queue_work_inserts_at_most_one:
  "length (actions (backend (snd (queue_work reg truth dump task st iid q retry w))))
     \<le> Suc (length (actions (backend w)))"
proof (cases "find (\<lambda>a. state a = st \<and> instance_id a = iid) (actions (backend w))")
  case None
  show ?thesis by (simp add: queue_work_absent_backend [OF None])
next
  case (Some a)
  show ?thesis by (simp add: queue_work_found_backend [OF Some])
qed

subsection \<open>Deduplication of repeated calls\<close>

text \<open>
  Claim C8. For every pair of instance id and state, a sequential repetition of
  \<^verbatim>\<open>queue_work\<close> calls for that pair inserts at most one action record in total: the
  ledger after any number of further calls is the ledger the first call left, the
  first call adds at most one row, and the number of rows of the pair ends at one when
  there was none before (and is unchanged otherwise). The calls may differ in task,
  queue name and retry policy, and may raise.
\<close>

theorem repeat_queue_work_single_insert:
  "backend (repeat_queue_work reg truth dump st iid (c # cs) w) =
     backend (snd (queue_work reg truth dump (call_task c) st iid (call_queue_name c) (call_retry c) w))
   \<and> length (actions (backend (repeat_queue_work reg truth dump st iid (c # cs) w)))
       \<le> Suc (length (actions (backend w)))
   \<and> length (filter (\<lambda>a. state a = st \<and> instance_id a = iid)
        (actions (backend (repeat_queue_work reg truth dump st iid (c # cs) w))))
       = max 1 (length (filter (\<lambda>a. state a = st \<and> instance_id a = iid) (actions (backend w))))"
proof -
  let ?P = "\<lambda>a. state a = st \<and> instance_id a = iid"
  let ?w' = "snd (queue_work reg truth dump (call_task c) st iid (call_queue_name c) (call_retry c) w)"
  have first: "backend (repeat_queue_work reg truth dump st iid (c # cs) w) = backend ?w'"
    using repeat_found_backend [OF queue_work_then_found] by simp
  have len: "length (actions (backend ?w')) \<le> Suc (length (actions (backend w)))"
    by (rule queue_work_inserts_at_most_one)
  have cnt: "length (filter ?P (actions (backend ?w'))) =
      max 1 (length (filter ?P (actions (backend w))))"
  proof (cases "find ?P (actions (backend w))")
    case None
    then have "filter ?P (actions (backend w)) = []"
      by (auto simp: find_None_iff filter_empty_conv)
    then show ?thesis
      by (simp add: queue_work_absent_backend [OF None])
  next
    case (Some a)
    then have "filter ?P (actions (backend w)) \<noteq> []"
      by (auto simp: find_Some_iff filter_empty_conv)
    then have "1 \<le> length (filter ?P (actions (backend w)))"
      by (cases "filter ?P (actions (backend w))") simp_all
    then show ?thesis
      by (simp add: queue_work_found_backend [OF Some] max_def)
  qed
  from first len cnt show ?thesis by simp
qed

subsection \<open>The inserted record\<close>

text \<open>
  Claim C2. The claim asks the inserted record to carry the three fields of the
  supplied retry policy. \<^verbatim>\<open>queue_work\<close> writes the constant 1 into each of them and
  never reads its \<^verbatim>\<open>retry\<close> argument: called on an empty ledger with the policy
  (5, 2, 3), it inserts a record whose retry fields are (1, 1, 1).
\<close>

theorem queue_work_drops_retry_policy:
  "map (\<lambda>a. (retry_backoff_seconds a, retry_backoff_factor a, retry_jitter a))
     (actions (backend (snd
        (queue_work ex_reg ex_truth ex_dump ex_task ''step_a'' 1 ''main''
           \<lparr>backoff_seconds = 5, backoff_factor = 2, jitter = 3\<rparr> world0)))) = [(1, 1, 1)]"
  by (simp add: ex_defs model_defs)

subsection \<open>A second call before the result\<close>

text \<open>
  The claim C1 as stated fails: on an empty ledger the first call for the pair
  (1, step_a) stores a record with no result, returns the future 0 and registers it under
  the record's id 1; the second call returns the future 1, another object.
\<close>

theorem queue_work_second_call_new_handle:
  "get_existing_action_execution 1 ''step_a''
      (backend (snd (queue_work ex_reg ex_truth ex_dump ex_task ''step_a'' 1 ''main'' ex_retry world0)))
     = (Some (ex_action\<lparr>status := QUEUED, final_result_id := None\<rparr>), None)
   \<and> fst (queue_work ex_reg ex_truth ex_dump ex_task ''step_a'' 1 ''main'' ex_retry world0) = Inr 0
   \<and> wait_signals (snd (queue_work ex_reg ex_truth ex_dump ex_task ''step_a'' 1 ''main'' ex_retry world0)) 1
       = Some 0
   \<and> fst (queue_work ex_reg ex_truth ex_dump ex_task ''step_a'' 1 ''main'' ex_retry
        (snd (queue_work ex_reg ex_truth ex_dump ex_task ''step_a'' 1 ''main'' ex_retry world0))) = Inr 1"
  by (simp add: ex_defs model_defs)

text \<open>
  Claim C1, amended. When a record exists for the pair and no result does, a call of
  \<^verbatim>\<open>queue_work\<close> leaves the ledger as it is, creates a new pending future, registers it
  under the record's id in place of the handle that was registered there, and returns
  it: the returned handle is not the one of the earlier call.
\<close>

theorem queue_work_requeue_replaces_handle:
  assumes "get_existing_action_execution iid st (backend w) = (Some a, None)"
    and "id_act a = Some k"
    and "wait_signals w k = Some h0" and "h0 < length (heap w)"
  shows "queue_work reg truth dump task st iid q retry w =
     (Inr (length (heap w)),
      w\<lparr>heap := heap w @ [Pending],
        wait_signals := (wait_signals w)(k \<mapsto> length (heap w))\<rparr>)
     \<and> fst (queue_work reg truth dump task st iid q retry w) \<noteq> Inr h0"
  using assms by (simp add: queue_work_pending_path)

theorem queue_work_requeue_replaces_handle_witness:
  "get_existing_action_execution 1 ''step_a''
      (backend (snd (queue_work ex_reg ex_truth ex_dump ex_task ''step_a'' 1 ''main'' ex_retry world0)))
     = (Some (ex_action\<lparr>status := QUEUED, final_result_id := None\<rparr>), None)
   \<and> id_act (ex_action\<lparr>status := QUEUED, final_result_id := None\<rparr>) = Some 1
   \<and> wait_signals (snd (queue_work ex_reg ex_truth ex_dump ex_task ''step_a'' 1 ''main'' ex_retry world0)) 1
       = Some 0
   \<and> 0 < length (heap (snd (queue_work ex_reg ex_truth ex_dump ex_task ''step_a'' 1 ''main'' ex_retry world0)))
   \<and> fst (queue_work ex_reg ex_truth ex_dump ex_task ''step_a'' 1 ''main'' ex_retry
        (snd (queue_work ex_reg ex_truth ex_dump ex_task ''step_a'' 1 ''main'' ex_retry world0))) \<noteq> Inr 0"
proof -
  let ?w1 = "snd (queue_work ex_reg ex_truth ex_dump ex_task ''step_a'' 1 ''main'' ex_retry world0)"
  let ?a = "ex_action\<lparr>status := QUEUED, final_result_id := None\<rparr>"
  have h1: "get_existing_action_execution 1 ''step_a'' (backend ?w1) = (Some ?a, None)"
    by (simp add: ex_defs model_defs)
  have h2: "id_act ?a = Some 1" by (simp add: ex_defs)
  have h3: "wait_signals ?w1 1 = Some 0" by (simp add: ex_defs model_defs)
  have h4: "0 < length (heap ?w1)" by (simp add: ex_defs model_defs)
  from queue_work_requeue_replaces_handle [OF h1 h2 h3 h4, of ex_reg ex_truth ex_dump ex_task "''main''" ex_retry] h1 h2 h3 h4
  show ?thesis by simp
qed

subsection \<open>Resolving a future from a stored result\<close>

text \<open>
  The claim C4 as stated fails: with no output model registered for the registry id, a
  result that has a body and no exception resolves the pending future 0 with
  \<^verbatim>\<open>None\<close>, and nothing is raised.
\<close>

theorem resolve_without_codec_returns_none:
  "ex_reg ''untyped'' = None \<and> result_body ex_result_ok = Some ''42''
   \<and> exception ex_result_ok = None
   \<and> resolve_future_from_result ex_reg 0 ''untyped'' ex_result_ok world_waiting
       = (Inr (), world_waiting\<lparr>heap := [Finished_Result None]\<rparr>)"
  by (simp add: ex_defs model_defs)

text \<open>
  Claim C4, amended. For a result record without an exception, if no output model is
  registered for the registry id, then resolving a pending future from that record
  raises nothing: the future is resolved with the absent value \<^verbatim>\<open>None\<close>, whether the
  record has a body or not.
\<close>

theorem resolve_without_codec:
  assumes "reg rid = None" and "\<not> truthy_str (exception r)" and "\<not> future_done f w"
  shows "resolve_future_from_result reg f rid r w =
     (Inr (), w\<lparr>heap := (heap w)[f := Finished_Result None]\<rparr>)"
  using assms by (simp add: resolve_future_from_result_def set_result_def)

theorem resolve_without_codec_witness:
  "ex_reg ''untyped'' = None \<and> \<not> truthy_str (exception ex_result_ok)
   \<and> \<not> future_done 0 world_waiting
   \<and> resolve_future_from_result ex_reg 0 ''untyped'' ex_result_ok world_waiting =
     (Inr (), world_waiting\<lparr>heap := (heap world_waiting)[0 := Finished_Result None]\<rparr>)"
proof -
  have h1: "ex_reg ''untyped'' = None" by (simp add: ex_defs)
  have h2: "\<not> truthy_str (exception ex_result_ok)" by (simp add: ex_defs truthy_str_def)
  have h3: "\<not> future_done 0 world_waiting" by (simp add: ex_defs future_done_def)
  from resolve_without_codec [where reg = ex_reg and rid = "''untyped''" and r = ex_result_ok and f = 0
      and w = world_waiting, OF h1 h2 h3] h1 h2 h3
  show ?thesis by simp
qed

text \<open>
  In the loop of \<^verbatim>\<open>delegate_done_actions\<close> the failure of a pending future carries both
  the exception text and the stack text of the result record.
\<close>

lemma drain_failure_message:
  assumes "wait_signals w n = Some h" and "\<not> future_done h w"
    and "get_action_by_id n (backend w) = Some obj" and "truthy_int (final_result_id obj)"
    and "get_result_by_id (the (final_result_id obj)) (backend w) = Some r"
    and "exception r = Some e" and "e \<noteq> []" and "exception_stack r = Some s"
  shows "\<exists>msg. handle_notification reg n w =
            (Inr (), w\<lparr>heap := (heap w)[h := Finished_Exception msg]\<rparr>)
          \<and> sublist e msg \<and> sublist s msg"
proof -
  let ?msg = "''Action failed with error: '' @ e @ '' '' @ s"
  have "handle_notification reg n w =
      (Inr (), w\<lparr>heap := (heap w)[h := Finished_Exception ?msg]\<rparr>)"
    using assms
    by (simp add: handle_notification_def set_exception_def truthy_str_def format_str_def)
  moreover have "sublist e ?msg"
    by (rule sublist_appendI)
  moreover have "sublist s ?msg"
    using sublist_appendI [of s "''Action failed with error: '' @ e @ '' ''" "[]"] by simp
  ultimately show ?thesis by blast
qed

text \<open>
  Claim C5. The claim asks the same of the fast path of \<^verbatim>\<open>queue_work\<close>. There
  \<^verbatim>\<open>resolve_future_from_result\<close> builds the failure from the exception text alone: with
  a stored result whose exception is "boom" and whose stack is "trace...", the returned
  future fails with the message "boom", which does not contain "trace...".
\<close>

theorem fast_path_failure_omits_stack:
  "get_existing_action_execution 1 ''step_a'' (backend world_boom)
     = (Some ex_action, Some ex_result_boom)
   \<and> exception ex_result_boom = Some ''boom''
   \<and> exception_stack ex_result_boom = Some ''trace...''
   \<and> queue_work ex_reg ex_truth ex_dump ex_task ''step_a'' 1 ''main'' ex_retry world_boom
       = (Inr 0, world_boom\<lparr>heap := [Finished_Exception ''boom'']\<rparr>)
   \<and> \<not> sublist ''trace...'' ''boom''"
  by (simp add: ex_defs model_defs sublist_code(3))

subsection \<open>The loop of delegate_done_actions\<close>

lemma delegate_append:
  "delegate_done_actions reg (ms @ ns) w =
     (case delegate_done_actions reg ms w of
        (Inl e, w') \<Rightarrow> (Inl e, w')
      | (Inr u, w') \<Rightarrow> delegate_done_actions reg ns w')"
  by (induction ms arbitrary: w) (auto split: prod.splits sum.splits)

text \<open>
  Claim C7. When a turn of \<^verbatim>\<open>delegate_done_actions\<close> resolves a pending future from a
  result record without an exception, the outcome is decided by the output model of the
  action's registry id and by the body: without a model the future is resolved with
  \<^verbatim>\<open>None\<close>; with a model and a body, the future is resolved with the decoded body (and
  the error of the decoder is raised when it rejects the body); with a model and no body
  a \<^verbatim>\<open>ValueError\<close> is raised and the future stays pending. A body is present in
  Python's sense of truth: the empty string counts as no body.
\<close>

theorem drain_resolution_by_codec_and_body:
  assumes "wait_signals w n = Some h" and "\<not> future_done h w"
    and "get_action_by_id n (backend w) = Some obj" and "truthy_int (final_result_id obj)"
    and "get_result_by_id (the (final_result_id obj)) (backend w) = Some r"
    and "\<not> truthy_str (exception r)"
  shows "handle_notification reg n w =
     (case reg (registry_id obj) of
        None \<Rightarrow> (Inr (), w\<lparr>heap := (heap w)[h := Finished_Result None]\<rparr>)
      | Some model \<Rightarrow>
          (case result_body r of
             None \<Rightarrow> (Inl DisallowedResponseType, w)
           | Some body \<Rightarrow>
               if body = [] then (Inl DisallowedResponseType, w)
               else
                 (case model body of
                    None \<Rightarrow> (Inl ValidationError, w)
                  | Some v \<Rightarrow> (Inr (), w\<lparr>heap := (heap w)[h := Finished_Result (Some v)]\<rparr>))))"
  using assms
  by (simp add: handle_notification_def resolve_future_from_result_def set_result_def
      truthy_str_def split: option.splits)

theorem drain_resolution_by_codec_and_body_witness:
  "wait_signals world_waiting 1 = Some 0 \<and> \<not> future_done 0 world_waiting
   \<and> get_action_by_id 1 (backend world_waiting) = Some ex_action
   \<and> truthy_int (final_result_id ex_action)
   \<and> get_result_by_id (the (final_result_id ex_action)) (backend world_waiting) = Some ex_result_ok
   \<and> \<not> truthy_str (exception ex_result_ok)
   \<and> handle_notification ex_reg 1 world_waiting
       = (Inr (), world_waiting\<lparr>heap := [Finished_Result (Some 42)]\<rparr>)"
proof -
  have h1: "wait_signals world_waiting 1 = Some 0" by (simp add: ex_defs)
  have h2: "\<not> future_done 0 world_waiting" by (simp add: ex_defs future_done_def)
  have h3: "get_action_by_id 1 (backend world_waiting) = Some ex_action"
    by (simp add: ex_defs get_action_by_id_def)
  have h4: "truthy_int (final_result_id ex_action)" by (simp add: ex_defs truthy_int_def)
  have h5: "get_result_by_id (the (final_result_id ex_action)) (backend world_waiting)
      = Some ex_result_ok"
    by (simp add: ex_defs get_result_by_id_def)
  have h6: "\<not> truthy_str (exception ex_result_ok)" by (simp add: ex_defs truthy_str_def)
  have "handle_notification ex_reg 1 world_waiting
      = (Inr (), world_waiting\<lparr>heap := [Finished_Result (Some 42)]\<rparr>)"
    using drain_resolution_by_codec_and_body [OF h1 h2 h3 h4 h5 h6, of ex_reg] by (simp add: ex_defs)
  with h1 h2 h3 h4 h5 h6 show ?thesis by simp
qed

text \<open>
  The claim C3 as stated fails. The loop resolves the future 0 of the action 1; the
  entry of the action stays in the map, so a second notification for the action reads
  the ledger again and sets the result again, and asyncio raises
  \<^verbatim>\<open>InvalidStateError\<close> on the future that is done.
\<close>

theorem duplicate_done_raises_invalid_state:
  "delegate_done_actions ex_reg [1] world_waiting
     = (Inr (), world_waiting\<lparr>heap := [Finished_Result (Some 42)]\<rparr>)
   \<and> wait_signals (world_waiting\<lparr>heap := [Finished_Result (Some 42)]\<rparr>) 1 = Some 0
   \<and> handle_notification ex_reg 1 (world_waiting\<lparr>heap := [Finished_Result (Some 42)]\<rparr>)
     = (Inl InvalidStateError, world_waiting\<lparr>heap := [Finished_Result (Some 42)]\<rparr>)"
  by (simp add: ex_defs model_defs)

text \<open>
  Claim C3, amended. For every action id whose registered future is already done, a
  turn of the loop for a further notification of that id leaves the futures, the map and
  the ledger unchanged, but it is silent only when the action record has no final result
  id (the turn is skipped); in every other case the turn raises.
\<close>

theorem duplicate_done_keeps_state:
  assumes "wait_signals w n = Some h" and "future_done h w"
  shows "snd (handle_notification reg n w) = w
     \<and> (fst (handle_notification reg n w) = Inr () \<longleftrightarrow>
          (\<exists>obj. get_action_by_id n (backend w) = Some obj \<and> \<not> truthy_int (final_result_id obj)))"
proof -
  have res: "\<And>rid r. \<exists>e. resolve_future_from_result reg h rid r w = (Inl e, w)"
    using assms(2) by (rule resolve_done)
  show ?thesis
  proof (cases "get_action_by_id n (backend w)")
    case None
    with assms show ?thesis by (simp add: handle_notification_def)
  next
    case (Some obj)
    show ?thesis
    proof (cases "truthy_int (final_result_id obj)")
      case False
      with Some assms show ?thesis by (simp add: handle_notification_def)
    next
      case True
      show ?thesis
      proof (cases "get_result_by_id (the (final_result_id obj)) (backend w)")
        case None
        with True Some assms show ?thesis by (simp add: handle_notification_def)
      next
        case (Some r)
        from res obtain e where "resolve_future_from_result reg h (registry_id obj) r w = (Inl e, w)"
          by blast
        with Some True \<open>get_action_by_id n (backend w) = Some obj\<close> assms show ?thesis
          by (simp add: handle_notification_def set_exception_def)
      qed
    qed
  qed
qed

theorem duplicate_done_keeps_state_witness:
  "wait_signals (world_waiting\<lparr>heap := [Finished_Result (Some 42)]\<rparr>) 1 = Some 0
   \<and> future_done 0 (world_waiting\<lparr>heap := [Finished_Result (Some 42)]\<rparr>)
   \<and> snd (handle_notification ex_reg 1 (world_waiting\<lparr>heap := [Finished_Result (Some 42)]\<rparr>))
       = world_waiting\<lparr>heap := [Finished_Result (Some 42)]\<rparr>
   \<and> fst (handle_notification ex_reg 1 (world_waiting\<lparr>heap := [Finished_Result (Some 42)]\<rparr>))
       \<noteq> Inr ()"
proof -
  let ?w = "world_waiting\<lparr>heap := [Finished_Result (Some 42)]\<rparr>"
  have h1: "wait_signals ?w 1 = Some 0" by (simp add: ex_defs)
  have h2: "future_done 0 ?w" by (simp add: ex_defs future_done_def)
  have h3: "get_action_by_id 1 (backend ?w) = Some ex_action"
    by (simp add: ex_defs get_action_by_id_def)
  have h4: "truthy_int (final_result_id ex_action)" by (simp add: ex_defs truthy_int_def)
  from duplicate_done_keeps_state [OF h1 h2, of ex_reg] h1 h2 h3 h4 show ?thesis by simp
qed

text \<open>
  The claim C6 as stated fails. With a model registered and a result without a body,
  the turn for the action 1 raises the \<^verbatim>\<open>ValueError\<close>; the loop has no handler, so the
  notification of the action 2 that follows is never read and its future stays pending,
  although the loop resolves it when that notification comes alone.
\<close>

theorem decode_error_stops_drain:
  "fst (handle_notification ex_reg 1 world_two) = Inl DisallowedResponseType
   \<and> delegate_done_actions ex_reg [1, 2] world_two = (Inl DisallowedResponseType, world_two)
   \<and> heap (snd (delegate_done_actions ex_reg [1, 2] world_two)) ! 1 = Pending
   \<and> delegate_done_actions ex_reg [2] world_two
       = (Inr (), world_two\<lparr>heap := [Pending, Finished_Result (Some 42)]\<rparr>)"
  by (simp add: ex_defs model_defs)

text \<open>
  Claim C6, amended. For every sequence of notifications, an error raised in the turn
  of one notification ends \<^verbatim>\<open>delegate_done_actions\<close> with that error: the notifications
  before it have been handled, the state is the one they left, and no notification
  after it is handled.
\<close>

theorem drain_error_ends_loop:
  assumes "delegate_done_actions reg ms w = (Inr (), w1)"
    and "fst (handle_notification reg n w1) = Inl e"
  shows "delegate_done_actions reg (ms @ n # ns) w = (Inl e, w1)"
proof -
  from assms(2) have "handle_notification reg n w1 = (Inl e, w1)"
    using handle_notification_raises [of reg n w1 e] by (simp add: prod_eq_iff)
  with assms(1) show ?thesis
    by (simp add: delegate_append)
qed

theorem drain_error_ends_loop_witness:
  "delegate_done_actions ex_reg [] world_two = (Inr (), world_two)
   \<and> fst (handle_notification ex_reg 1 world_two) = Inl DisallowedResponseType
   \<and> delegate_done_actions ex_reg ([] @ 1 # [2]) world_two = (Inl DisallowedResponseType, world_two)"
proof -
  have h1: "delegate_done_actions ex_reg [] world_two = (Inr (), world_two)" by simp
  have h2: "fst (handle_notification ex_reg 1 world_two) = Inl DisallowedResponseType"
    by (simp add: ex_defs model_defs)
  from drain_error_ends_loop [OF h1 h2, of "[2]"] h1 h2 show ?thesis by simp
qed

subsection \<open>The fast path of queue_work\<close>

lemma resolve_pending_new:
  "resolve_future_from_result reg (length hp) rid r (w\<lparr>heap := hp @ [Pending]\<rparr>) =
     (if truthy_str (exception r) then
        (Inr (), w\<lparr>heap := hp @ [Finished_Exception (the (exception r))]\<rparr>)
      else
        (case reg rid of
           None \<Rightarrow> (Inr (), w\<lparr>heap := hp @ [Finished_Result None]\<rparr>)
         | Some model \<Rightarrow>
             if truthy_str (result_body r) then
               (case model (the (result_body r)) of
                  None \<Rightarrow> (Inl ValidationError, w\<lparr>heap := hp @ [Pending]\<rparr>)
                | Some v \<Rightarrow> (Inr (), w\<lparr>heap := hp @ [Finished_Result (Some v)]\<rparr>))
             else (Inl DisallowedResponseType, w\<lparr>heap := hp @ [Pending]\<rparr>)))"
  by (auto simp: resolve_future_from_result_def set_result_def set_exception_def
      future_done_def truthy_str_def format_str_def split: option.splits)

text \<open>
  Claim C9. When a result record exists for the record found, the outcome of
  \<^verbatim>\<open>queue_work\<close> is fixed by that record and by the model of the task's registry id.
  The call returns exactly when the record carries an exception, or no model is
  registered, or the model decodes the body; the future it returns is then a new object
  that is already done: failed with the stored exception text, or resolved with the
  decoded body (\<^verbatim>\<open>None\<close> without a model). In the two remaining cases, a model with no
  body and a model that rejects the body, the call raises and returns no handle. In every
  case the map of waiting futures and the ledger are unchanged, and the new future is not
  in the map.
\<close>

theorem fast_path_resolved_unregistered:
  assumes "get_existing_action_execution iid st (backend w) = (Some a, Some r)"
    and "ran (wait_signals w) \<subseteq> {..< length (heap w)}"
  shows "queue_work reg truth dump task st iid q retry w =
       (if truthy_str (exception r) then
          (Inr (length (heap w)),
           w\<lparr>heap := heap w @ [Finished_Exception (the (exception r))]\<rparr>)
        else
          (case reg (stub_registry_id task) of
             None \<Rightarrow> (Inr (length (heap w)), w\<lparr>heap := heap w @ [Finished_Result None]\<rparr>)
           | Some model \<Rightarrow>
               (case result_body r of
                  None \<Rightarrow> (Inl DisallowedResponseType, w\<lparr>heap := heap w @ [Pending]\<rparr>)
                | Some body \<Rightarrow>
                    if body = [] then
                      (Inl DisallowedResponseType, w\<lparr>heap := heap w @ [Pending]\<rparr>)
                    else
                      (case model body of
                         None \<Rightarrow> (Inl ValidationError, w\<lparr>heap := heap w @ [Pending]\<rparr>)
                       | Some v \<Rightarrow>
                           (Inr (length (heap w)),
                            w\<lparr>heap := heap w @ [Finished_Result (Some v)]\<rparr>)))))
     \<and> ((\<exists>handle. fst (queue_work reg truth dump task st iid q retry w) = Inr handle) \<longleftrightarrow>
          (truthy_str (exception r) \<or> reg (stub_registry_id task) = None
           \<or> (\<exists>model v. reg (stub_registry_id task) = Some model
                  \<and> truthy_str (result_body r) \<and> model (the (result_body r)) = Some v)))
     \<and> wait_signals (snd (queue_work reg truth dump task st iid q retry w)) = wait_signals w
     \<and> backend (snd (queue_work reg truth dump task st iid q retry w)) = backend w
     \<and> length (heap w)
          \<notin> ran (wait_signals (snd (queue_work reg truth dump task st iid q retry w)))"
proof -
  let ?qw = "queue_work reg truth dump task st iid q retry w"
  have qw: "?qw =
     (case resolve_future_from_result reg (length (heap w)) (stub_registry_id task) r
             (w\<lparr>heap := heap w @ [Pending]\<rparr>) of
        (Inl e, w2) \<Rightarrow> (Inl e, w2)
      | (Inr u, w2) \<Rightarrow> (Inr (length (heap w)), w2))"
    by (rule queue_work_fast_path [OF assms(1)])
  have eq: "?qw =
       (if truthy_str (exception r) then
          (Inr (length (heap w)),
           w\<lparr>heap := heap w @ [Finished_Exception (the (exception r))]\<rparr>)
        else
          (case reg (stub_registry_id task) of
             None \<Rightarrow> (Inr (length (heap w)), w\<lparr>heap := heap w @ [Finished_Result None]\<rparr>)
           | Some model \<Rightarrow>
               (case result_body r of
                  None \<Rightarrow> (Inl DisallowedResponseType, w\<lparr>heap := heap w @ [Pending]\<rparr>)
                | Some body \<Rightarrow>
                    if body = [] then
                      (Inl DisallowedResponseType, w\<lparr>heap := heap w @ [Pending]\<rparr>)
                    else
                      (case model body of
                         None \<Rightarrow> (Inl ValidationError, w\<lparr>heap := heap w @ [Pending]\<rparr>)
                       | Some v \<Rightarrow>
                           (Inr (length (heap w)),
                            w\<lparr>heap := heap w @ [Finished_Result (Some v)]\<rparr>)))))"
    unfolding qw resolve_pending_new by (simp add: truthy_str_def split: option.splits)
  have ret: "(\<exists>handle. fst ?qw = Inr handle) \<longleftrightarrow>
          (truthy_str (exception r) \<or> reg (stub_registry_id task) = None
           \<or> (\<exists>model v. reg (stub_registry_id task) = Some model
                  \<and> truthy_str (result_body r) \<and> model (the (result_body r)) = Some v))"
    unfolding qw resolve_pending_new by (auto split: option.splits)
  have ws: "wait_signals (snd ?qw) = wait_signals w"
    unfolding qw resolve_pending_new by (simp split: option.splits)
  have be: "backend (snd ?qw) = backend w"
    unfolding qw resolve_pending_new by (simp split: option.splits)
  have fresh: "length (heap w) \<notin> ran (wait_signals (snd ?qw))"
    using assms(2) unfolding ws by auto
  from eq ret ws be fresh show ?thesis by blast
qed

theorem fast_path_resolved_unregistered_witness:
  "get_existing_action_execution 1 ''step_a'' (backend world_waiting)
     = (Some ex_action, Some ex_result_ok)
   \<and> ran (wait_signals world_waiting) \<subseteq> {..< length (heap world_waiting)}
   \<and> queue_work ex_reg ex_truth ex_dump ex_task ''step_a'' 1 ''main'' ex_retry world_waiting
     = (Inr 1, world_waiting\<lparr>heap := [Pending, Finished_Result (Some 42)]\<rparr>)
   \<and> 1 \<notin> ran (wait_signals world_waiting)
   \<and> get_existing_action_execution 1 ''step_a'' (backend world_two)
     = (Some ex_action, Some ex_result_nobody)
   \<and> ran (wait_signals world_two) \<subseteq> {..< length (heap world_two)}
   \<and> queue_work ex_reg ex_truth ex_dump ex_task ''step_a'' 1 ''main'' ex_retry world_two
     = (Inl DisallowedResponseType, world_two\<lparr>heap := [Pending, Pending, Pending]\<rparr>)"
proof -
  have h1: "get_existing_action_execution 1 ''step_a'' (backend world_waiting)
     = (Some ex_action, Some ex_result_ok)"
    by (simp add: ex_defs model_defs)
  have h2: "ran (wait_signals world_waiting) \<subseteq> {..< length (heap world_waiting)}"
    by (simp add: ex_defs)
  note t1 = fast_path_resolved_unregistered
    [OF h1 h2, of ex_reg ex_truth ex_dump ex_task "''main''" ex_retry]
  from t1 have ev1:
    "queue_work ex_reg ex_truth ex_dump ex_task ''step_a'' 1 ''main'' ex_retry world_waiting
     = (Inr 1, world_waiting\<lparr>heap := [Pending, Finished_Result (Some 42)]\<rparr>)"
    by (simp add: ex_defs truthy_str_def)
  from t1 have "length (heap world_waiting)
      \<notin> ran (wait_signals (snd (queue_work ex_reg ex_truth ex_dump ex_task ''step_a'' 1 ''main''
            ex_retry world_waiting)))"
    by blast
  then have fr: "1 \<notin> ran (wait_signals world_waiting)"
    by (simp only: ev1 snd_conv) (simp add: ex_defs)
  have g1: "get_existing_action_execution 1 ''step_a'' (backend world_two)
     = (Some ex_action, Some ex_result_nobody)"
    by (simp add: ex_defs model_defs)
  have g2: "ran (wait_signals world_two) \<subseteq> {..< length (heap world_two)}"
    by (simp add: ex_defs)
  from fast_path_resolved_unregistered
    [OF g1 g2, of ex_reg ex_truth ex_dump ex_task "''main''" ex_retry]
  have ev2:
    "queue_work ex_reg ex_truth ex_dump ex_task ''step_a'' 1 ''main'' ex_retry world_two
     = (Inl DisallowedResponseType, world_two\<lparr>heap := [Pending, Pending, Pending]\<rparr>)"
    by (simp add: ex_defs truthy_str_def)
  from h1 h2 ev1 fr g1 g2 ev2 show ?thesis by blast
qed

text \<open>
  Claim C10. The lookup of \<^verbatim>\<open>queue_work\<close> matches the state and the instance id only.
  Whatever registry id and queue name the found record carries and whatever the caller
  passes, the call inserts nothing, and on the fast path the stored result is decoded
  with the registry id of the calling task. In the example the record was stored for the
  registry id "typed" and the queue "main"; a caller with the registry id "untyped", which
  has no model, and the queue "other" gets \<^verbatim>\<open>None\<close>, where a caller with "typed" gets
  the decoded 42.
\<close>

theorem dedup_lookup_ignores_registry_and_queue:
  assumes "find (\<lambda>a. state a = st \<and> instance_id a = iid) (actions (backend w)) = Some a"
  shows "backend (snd (queue_work reg truth dump task st iid q retry w)) = backend w
     \<and> (\<forall>r. find (\<lambda>r. Some (action_id r) = id_act a) (action_results (backend w)) = Some r
          \<longrightarrow> queue_work reg truth dump task st iid q retry w =
               (case resolve_future_from_result reg (length (heap w)) (stub_registry_id task) r
                       (w\<lparr>heap := heap w @ [Pending]\<rparr>) of
                  (Inl e, w2) \<Rightarrow> (Inl e, w2)
                | (Inr u, w2) \<Rightarrow> (Inr (length (heap w)), w2)))"
proof -
  have "backend (snd (queue_work reg truth dump task st iid q retry w)) = backend w"
    by (rule queue_work_found_backend [OF assms])
  moreover have "queue_work reg truth dump task st iid q retry w =
               (case resolve_future_from_result reg (length (heap w)) (stub_registry_id task) r
                       (w\<lparr>heap := heap w @ [Pending]\<rparr>) of
                  (Inl e, w2) \<Rightarrow> (Inl e, w2)
                | (Inr u, w2) \<Rightarrow> (Inr (length (heap w)), w2))"
    if "find (\<lambda>r. Some (action_id r) = id_act a) (action_results (backend w)) = Some r" for r
  proof -
    from assms that have "get_existing_action_execution iid st (backend w) = (Some a, Some r)"
      by (simp add: get_existing_action_execution_def)
    then show ?thesis by (rule queue_work_fast_path)
  qed
  ultimately show ?thesis by blast
qed

theorem dedup_lookup_ignores_registry_and_queue_witness:
  "find (\<lambda>a. state a = ''step_a'' \<and> instance_id a = 1) (actions (backend world_stored))
     = Some ex_action
   \<and> registry_id ex_action = ''typed'' \<and> stub_registry_id ex_task_untyped = ''untyped''
   \<and> workflow_name ex_action = ''main''
   \<and> backend (snd (queue_work ex_reg ex_truth ex_dump ex_task_untyped ''step_a'' 1 ''other'' ex_retry
        world_stored)) = backend world_stored
   \<and> queue_work ex_reg ex_truth ex_dump ex_task_untyped ''step_a'' 1 ''other'' ex_retry world_stored
       = (Inr 0, world_stored\<lparr>heap := [Finished_Result None]\<rparr>)
   \<and> queue_work ex_reg ex_truth ex_dump ex_task ''step_a'' 1 ''main'' ex_retry world_stored
       = (Inr 0, world_stored\<lparr>heap := [Finished_Result (Some 42)]\<rparr>)"
proof -
  have h1: "find (\<lambda>a. state a = ''step_a'' \<and> instance_id a = 1)
      (actions (backend world_stored)) = Some ex_action"
    by (simp add: ex_defs)
  have h2: "find (\<lambda>r. Some (action_id r) = id_act ex_action)
      (action_results (backend world_stored)) = Some ex_result_ok"
    by (simp add: ex_defs)
  from dedup_lookup_ignores_registry_and_queue [OF h1, of ex_reg ex_truth ex_dump ex_task_untyped "''other''" ex_retry] h2
  have "backend (snd (queue_work ex_reg ex_truth ex_dump ex_task_untyped ''step_a'' 1 ''other'' ex_retry
        world_stored)) = backend world_stored
     \<and> queue_work ex_reg ex_truth ex_dump ex_task_untyped ''step_a'' 1 ''other'' ex_retry world_stored =
               (case resolve_future_from_result ex_reg (length (heap world_stored))
                       (stub_registry_id ex_task_untyped) ex_result_ok
                       (world_stored\<lparr>heap := heap world_stored @ [Pending]\<rparr>) of
                  (Inl e, w2) \<Rightarrow> (Inl e, w2)
                | (Inr u, w2) \<Rightarrow> (Inr (length (heap world_stored)), w2))"
    by blast
  moreover have "queue_work ex_reg ex_truth ex_dump ex_task ''step_a'' 1 ''main'' ex_retry world_stored
       = (Inr 0, world_stored\<lparr>heap := [Finished_Result (Some 42)]\<rparr>)"
    by (simp add: ex_defs model_defs)
  ultimately show ?thesis
    using h1 by (simp add: ex_defs model_defs)
qed

end
